theory Spec2Isabelle
  imports Main
begin

section \<open>Data model of the pump control server (server.js)\<close>

text \<open>
  The relational store is modelled by its two tables.  \<open>pump_status\<close> has the columns
  created by \<open>initPumpStatusTable\<close>; \<open>area_name\<close> is \<open>UNIQUE\<close>, so the table is a map
  from area names to rows.  \<open>crop_settings\<close> is only ever read by this program; its
  schema is not part of the program, so its two columns that the program reads are taken
  as a text and an integer.  Message fields are taken with the types of the columns they
  are written to (area names, pump ids and modes are strings, a status is a boolean, a
  moisture value is an integer); timestamps are natural numbers.
\<close>

record pump_row =
  row_id :: nat
  area_name :: string
  pump_id :: string
  status :: bool
  mode :: string
  last_updated :: nat

record crop_row =
  crop_name :: string
  optimal_moisture :: int

text \<open>
  The object that is spread into a \<open>pump_status_update\<close> message: either a row of
  the table, or the object literal of \<open>sendPumpStatus\<close>, which has no \<open>id\<close> and
  whose \<open>area_name\<close> is the (possibly undefined) area of the connection.
\<close>

record status_view =
  v_id :: "nat option"
  v_area_name :: "string option"
  v_pump_id :: string
  v_status :: bool
  v_mode :: string
  v_last_updated :: nat

datatype message =
    PumpStatusUpdate status_view
  | OptimalMoistureSuccess string int int
  | OptimalMoistureError string

text \<open>
  The state of the process and of its store.  Sockets are identified by numbers.
  \<open>clients\<close> is the global \<open>Map\<close> of the program; \<open>open_sockets\<close> holds the sockets
  whose \<open>readyState\<close> is 1; \<open>outbox\<close> records every call of \<open>ws.send\<close>, in order,
  with the socket it was made on.  \<open>next_id\<close> is the sequence behind the \<open>SERIAL\<close>
  column.
\<close>

record server =
  pump_status :: "string \<rightharpoonup> pump_row"
  next_id :: nat
  crop_settings :: "string \<rightharpoonup> crop_row"
  clients :: "string \<rightharpoonup> nat"
  open_sockets :: "nat set"
  outbox :: "(nat \<times> message) list"

text \<open>
  What the environment decides during one run of a handler: the time (\<open>NOW()\<close> and
  \<open>new Date()\<close>), and for each \<open>pool.query\<close> of the program whether it succeeds
  or throws.  One flag stands for one query site of the source:
  \<open>crop_query_ok\<close> for the \<open>SELECT\<close> on \<open>crop_settings\<close>,
  \<open>status_query_ok\<close> for the \<open>SELECT\<close> on \<open>pump_status\<close> in
  \<open>handleSoilMoistureUpdate\<close> and in \<open>sendPumpStatus\<close>,
  \<open>insert_ok\<close> for the plain \<open>INSERT\<close> of \<open>handleSoilMoistureUpdate\<close>,
  \<open>upsert_ok\<close> for the \<open>INSERT ... ON CONFLICT\<close> of \<open>updatePumpStatus\<close>, and
  \<open>broadcast_query_ok\<close> for the \<open>SELECT\<close> of \<open>broadcastPumpStatus\<close>.
\<close>

record pool_env =
  now :: nat
  crop_query_ok :: bool
  status_query_ok :: bool
  insert_ok :: bool
  upsert_ok :: bool
  broadcast_query_ok :: bool

datatype ws_message =
    PumpControl string string bool string
  | SoilMoistureUpdate string int
  | RequestOptimalMoisture string
  | Unrecognised

record post_body =
  b_status :: "bool option"
  b_mode :: "string option"

datatype http_body = ErrorBody string | SuccessBody bool string

type_synonym http_response = "nat \<times> http_body"

datatype event =
    Connection nat string
  | WsMessage nat ws_message
  | WsClose nat string
  | HttpPost string post_body

section \<open>The area of a connection\<close>

text \<open>
  \<open>req.url.split('?area=')[1]\<close>: the text between the first and the second occurrence
  of the separator, or undefined when the separator does not occur.  \<open>split_js\<close> is
  \<open>String.prototype.split\<close> with a string separator; \<open>acc\<close> holds the characters of
  the current piece, last first.
\<close>

function split_js :: "string \<Rightarrow> string \<Rightarrow> string \<Rightarrow> string list" where
  "split_js sep acc s =
     (if sep = [] then map (\<lambda>c. [c]) s
      else if s = [] then [rev acc]
      else if take (length sep) s = sep
           then rev acc # split_js sep [] (drop (length sep) s)
           else split_js sep (hd s # acc) (tl s))"
  by pat_completeness auto
termination
  by (relation "measure (\<lambda>(sep, acc, s). length s)") (auto simp: neq_Nil_conv)

definition areaName_of_url :: "string \<Rightarrow> string option" where
  "areaName_of_url url =
     (case split_js ''?area='' [] url of
        _ # a # _ \<Rightarrow> Some a
      | _ \<Rightarrow> None)"

text \<open>How a template literal prints a possibly undefined area name.\<close>

definition template :: "string option \<Rightarrow> string" where
  "template areaName = (case areaName of None \<Rightarrow> ''undefined'' | Some a \<Rightarrow> a)"

section \<open>Store and socket operations\<close>

definition view_of_row :: "pump_row \<Rightarrow> status_view" where
  "view_of_row r =
     \<lparr>v_id = Some (row_id r), v_area_name = Some (area_name r), v_pump_id = pump_id r,
      v_status = status r, v_mode = mode r, v_last_updated = last_updated r\<rparr>"

definition ws_send :: "nat \<Rightarrow> message \<Rightarrow> server \<Rightarrow> server" where
  "ws_send ws msg s = s\<lparr>outbox := outbox s @ [(ws, msg)]\<rparr>"

text \<open>
  \<open>updatePumpStatus\<close>: the upsert keyed on \<open>area_name\<close>.  A new row takes all four
  parameters; on a conflict only \<open>status\<close>, \<open>mode\<close> and \<open>last_updated\<close> are
  set, and \<open>pump_id\<close> (with \<open>id\<close> and \<open>area_name\<close>) stays.  A query that throws
  is caught inside the function, which then returns false and leaves the store as it was.
\<close>

definition updatePumpStatus ::
  "pool_env \<Rightarrow> string \<Rightarrow> string \<Rightarrow> bool \<Rightarrow> string \<Rightarrow> server \<Rightarrow> bool \<times> server" where
  "updatePumpStatus env areaName pumpId st md s =
     (if upsert_ok env then
        (True,
         s\<lparr>pump_status := (pump_status s)(areaName \<mapsto>
              (case pump_status s areaName of
                 None \<Rightarrow> \<lparr>row_id = next_id s, area_name = areaName, pump_id = pumpId,
                          status = st, mode = md, last_updated = now env\<rparr>
               | Some r \<Rightarrow> r\<lparr>status := st, mode := md, last_updated := now env\<rparr>)),
           next_id := Suc (next_id s)\<rparr>)
      else (False, s))"

text \<open>
  \<open>broadcastPumpStatus\<close>: reads the row again and sends it to the socket registered for
  the area, when there is one and its \<open>readyState\<close> is 1.
\<close>

definition broadcastPumpStatus :: "pool_env \<Rightarrow> string \<Rightarrow> server \<Rightarrow> server" where
  "broadcastPumpStatus env areaName s =
     (if \<not> broadcast_query_ok env then s
      else case pump_status s areaName of
             None \<Rightarrow> s
           | Some pumpStatus \<Rightarrow>
               (case clients s areaName of
                  None \<Rightarrow> s
                | Some ws \<Rightarrow>
                    if ws \<in> open_sockets s
                    then ws_send ws (PumpStatusUpdate (view_of_row pumpStatus)) s
                    else s))"

text \<open>
  \<open>sendPumpStatus\<close>: the row of the area, or an object made up on the spot when there
  is none; nothing is written.  An undefined area name matches no row.
\<close>

definition sendPumpStatus :: "pool_env \<Rightarrow> string option \<Rightarrow> nat \<Rightarrow> server \<Rightarrow> server" where
  "sendPumpStatus env areaName ws s =
     (if \<not> status_query_ok env then s
      else
        let rows = (case areaName of None \<Rightarrow> None | Some a \<Rightarrow> pump_status s a);
            pumpStatus =
              (case rows of
                 None \<Rightarrow> \<lparr>v_id = None, v_area_name = areaName,
                          v_pump_id = ''pump_'' @ template areaName,
                          v_status = False, v_mode = ''auto'', v_last_updated = now env\<rparr>
               | Some r \<Rightarrow> view_of_row r)
        in ws_send ws (PumpStatusUpdate pumpStatus) s)"

definition sendOptimalMoisture :: "pool_env \<Rightarrow> string \<Rightarrow> nat \<Rightarrow> server \<Rightarrow> server" where
  "sendOptimalMoisture env areaName ws s =
     (if \<not> crop_query_ok env then ws_send ws (OptimalMoistureError ''Database error'') s
      else case crop_settings s areaName of
             None \<Rightarrow> ws_send ws (OptimalMoistureError ''No crop settings found'') s
           | Some c \<Rightarrow>
               let targetMoisture = optimal_moisture c + 10
               in ws_send ws
                    (OptimalMoistureSuccess (crop_name c) (optimal_moisture c) targetMoisture) s)"

section \<open>Handlers\<close>

text \<open>
  \<open>handleSoilMoistureUpdate\<close>.  Every query that throws ends the handler in its
  \<open>catch\<close>, which only logs.  The result of \<open>updatePumpStatus\<close> is not looked at.
\<close>

definition handleSoilMoistureUpdate :: "pool_env \<Rightarrow> string \<Rightarrow> int \<Rightarrow> server \<Rightarrow> server" where
  "handleSoilMoistureUpdate env area soil_moisture s =
     (if \<not> crop_query_ok env then s
      else case crop_settings s area of
             None \<Rightarrow> s
           | Some crop \<Rightarrow>
               let targetMoisture = optimal_moisture crop + 10 in
               if \<not> status_query_ok env then s
               else
                 (case (case pump_status s area of
                          None \<Rightarrow>
                            if \<not> insert_ok env then None
                            else Some (False, ''auto'',
                                   s\<lparr>pump_status := (pump_status s)(area \<mapsto>
                                        \<lparr>row_id = next_id s, area_name = area,
                                         pump_id = ''pump_'' @ area, status = False,
                                         mode = ''auto'', last_updated = now env\<rparr>),
                                     next_id := Suc (next_id s)\<rparr>)
                        | Some r \<Rightarrow> Some (status r, mode r, s)) of
                    None \<Rightarrow> s
                  | Some (cur_status, cur_mode, s1) \<Rightarrow>
                      if cur_mode = ''auto'' then
                        let newStatus = (soil_moisture < targetMoisture) in
                        if newStatus \<noteq> cur_status then
                          broadcastPumpStatus env area
                            (snd (updatePumpStatus env area (''pump_'' @ area) newStatus ''auto'' s1))
                        else s1
                      else s1))"

text \<open>
  The \<open>message\<close> handler of a socket.  For \<open>pump_control\<close> the result of
  \<open>updatePumpStatus\<close> is not looked at and the broadcast follows in every case.
\<close>

definition on_message :: "pool_env \<Rightarrow> nat \<Rightarrow> ws_message \<Rightarrow> server \<Rightarrow> server" where
  "on_message env ws data s =
     (case data of
        PumpControl area pumpId st md \<Rightarrow>
          broadcastPumpStatus env area (snd (updatePumpStatus env area pumpId st md s))
      | SoilMoistureUpdate area soil_moisture \<Rightarrow> handleSoilMoistureUpdate env area soil_moisture s
      | RequestOptimalMoisture area \<Rightarrow> sendOptimalMoisture env area ws s
      | Unrecognised \<Rightarrow> s)"

text \<open>
  The \<open>connection\<close> handler: the socket is open, it is stored under its area when the
  area is truthy (neither undefined nor empty), and the status is sent to it.
\<close>

definition on_connection :: "pool_env \<Rightarrow> nat \<Rightarrow> string \<Rightarrow> server \<Rightarrow> server" where
  "on_connection env ws url s =
     (let areaName = areaName_of_url url;
          s0 = s\<lparr>open_sockets := insert ws (open_sockets s)\<rparr>;
          s1 = (case areaName of
                  None \<Rightarrow> s0
                | Some a \<Rightarrow> if a \<noteq> [] then s0\<lparr>clients := (clients s0)(a \<mapsto> ws)\<rparr> else s0)
      in sendPumpStatus env areaName ws s1)"


text \<open>
  The \<open>close\<close> handler of the socket that connected with \<open>url\<close>: the socket is no
  longer open, and the entry of its area is deleted, whichever socket it holds.
\<close>

definition on_close :: "nat \<Rightarrow> string \<Rightarrow> server \<Rightarrow> server" where
  "on_close ws url s =
     (let areaName = areaName_of_url url;
          s0 = s\<lparr>open_sockets := open_sockets s - {ws}\<rparr>
      in case areaName of
           None \<Rightarrow> s0
         | Some a \<Rightarrow> if a \<noteq> [] then s0\<lparr>clients := (clients s0)(a := None)\<rparr> else s0)"

text \<open>\<open>app.post('/api/pumps/:area_name')\<close>.  \<open>!mode\<close> holds for a missing and for an empty mode.\<close>

definition app_post :: "pool_env \<Rightarrow> string \<Rightarrow> post_body \<Rightarrow> server \<Rightarrow> http_response \<times> server" where
  "app_post env area body s =
     (case (b_status body, b_mode body) of
        (Some st, Some md) \<Rightarrow>
          if md = [] then ((400, ErrorBody ''Missing required fields''), s)
          else
            (case updatePumpStatus env area (''pump_'' @ area) st md s of
               (True, s1) \<Rightarrow>
                 ((200, SuccessBody True ''Pump status updated successfully''),
                  broadcastPumpStatus env area s1)
             | (False, s1) \<Rightarrow> ((500, ErrorBody ''Failed to update pump status''), s1))
      | _ \<Rightarrow> ((400, ErrorBody ''Missing required fields''), s))"

section \<open>Runs of the server\<close>

text \<open>
  A run is a sequence of events, each with the environment it meets.  A handler is taken
  to run to its end before the next event is handled, so the calls of
  \<open>sendPumpStatus\<close> and \<open>broadcastPumpStatus\<close>, which the source starts without
  awaiting them, take effect where they are started; a run in which other events are
  handled before the query of the connection's \<open>sendPumpStatus\<close> returns is
  written with \<open>connection_sync\<close>.  The two GET routes only read the table and are
  left out.
\<close>

definition step :: "pool_env \<Rightarrow> event \<Rightarrow> server \<Rightarrow> server" where
  "step env e s =
     (case e of
        Connection ws url \<Rightarrow> on_connection env ws url s
      | WsMessage ws data \<Rightarrow> on_message env ws data s
      | WsClose ws url \<Rightarrow> on_close ws url s
      | HttpPost area body \<Rightarrow> snd (app_post env area body s))"

fun run :: "(pool_env \<times> event) list \<Rightarrow> server \<Rightarrow> server" where
  "run [] s = s"
| "run ((env, e) # es) s = run es (step env e s)"

section \<open>Properties of states, events and messages\<close>

text \<open>The row of area \<open>a\<close>, when there is one, carries the pump id derived from \<open>a\<close>.\<close>

definition pump_id_derived :: "server \<Rightarrow> string \<Rightarrow> bool" where
  "pump_id_derived s a =
     (case pump_status s a of None \<Rightarrow> True | Some r \<Rightarrow> pump_id r = ''pump_'' @ a)"

text \<open>
  A \<open>pump_control\<close> message whose \<open>pump_id\<close> field is the one derived from its
  area; every other event passes.
\<close>

fun derived_command :: "event \<Rightarrow> bool" where
  "derived_command (WsMessage ws (PumpControl a p st md)) = (p = ''pump_'' @ a)"
| "derived_command _ = True"

text \<open>The two ways an operator command reaches the server.\<close>

fun operator_command :: "event \<Rightarrow> bool" where
  "operator_command (WsMessage ws (PumpControl a p st md)) = True"
| "operator_command (HttpPost a body) = True"
| "operator_command _ = False"

text \<open>A row and a sent message with the time of the last write blanked.\<close>

definition untimed_row :: "pump_row \<Rightarrow> pump_row" where
  "untimed_row r = r\<lparr>last_updated := 0\<rparr>"

fun untimed_msg :: "nat \<times> message \<Rightarrow> nat \<times> message" where
  "untimed_msg (ws, PumpStatusUpdate v) = (ws, PumpStatusUpdate (v\<lparr>v_last_updated := 0\<rparr>))"
| "untimed_msg (ws, m) = (ws, m)"

text \<open>The messages sent between state \<open>s\<close> and a later state \<open>s'\<close>.\<close>

definition sent_since :: "server \<Rightarrow> server \<Rightarrow> (nat \<times> message) list" where
  "sent_since s s' = drop (length (outbox s)) (outbox s')"

section \<open>Example states and environments\<close>

text \<open>An environment at time \<open>t\<close> in which every query succeeds, and one in which only the upsert throws.\<close>

definition all_ok :: "nat \<Rightarrow> pool_env" where
  "all_ok t = \<lparr>now = t, crop_query_ok = True, status_query_ok = True, insert_ok = True,
              upsert_ok = True, broadcast_query_ok = True\<rparr>"

definition upsert_down :: "nat \<Rightarrow> pool_env" where
  "upsert_down t = (all_ok t)\<lparr>upsert_ok := False\<rparr>"

text \<open>The server after start-up on an empty \<open>pump_status\<close> table.\<close>

definition initial :: "(string \<rightharpoonup> crop_row) \<Rightarrow> server" where
  "initial crops = \<lparr>pump_status = Map.empty, next_id = 1, crop_settings = crops,
                     clients = Map.empty, open_sockets = {}, outbox = []\<rparr>"

text \<open>
  Area \<open>field1\<close> with optimal moisture 40, a row with the given status and mode, and
  socket 7 connected for the area.
\<close>

definition field1_row :: "bool \<Rightarrow> string \<Rightarrow> pump_row" where
  "field1_row st md = \<lparr>row_id = 1, area_name = ''field1'', pump_id = ''pump_field1'',
                        status = st, mode = md, last_updated = 0\<rparr>"

definition field1_state :: "bool \<Rightarrow> string \<Rightarrow> server" where
  "field1_state st md =
     \<lparr>pump_status = [''field1'' \<mapsto> field1_row st md], next_id = 2,
      crop_settings = [''field1'' \<mapsto> \<lparr>crop_name = ''wheat'', optimal_moisture = 40\<rparr>],
      clients = [''field1'' \<mapsto> 7], open_sockets = {7}, outbox = []\<rparr>"

section \<open>What each operation does to the tables and the registry\<close>

lemma pump_status_ws_send: "pump_status (ws_send ws m s) = pump_status s"
  by (simp add: ws_send_def)

lemma pump_status_broadcast: "pump_status (broadcastPumpStatus env a s) = pump_status s"
  by (simp add: broadcastPumpStatus_def ws_send_def split: option.splits)

lemma pump_status_sendPumpStatus: "pump_status (sendPumpStatus env an ws s) = pump_status s"
  by (simp add: sendPumpStatus_def ws_send_def Let_def)

lemma pump_status_sendOptimalMoisture:
  "pump_status (sendOptimalMoisture env a ws s) = pump_status s"
  by (simp add: sendOptimalMoisture_def ws_send_def Let_def split: option.splits)

lemma pump_status_on_connection: "pump_status (on_connection env ws url s) = pump_status s"
  by (simp add: on_connection_def pump_status_sendPumpStatus Let_def split: option.splits)

lemma pump_status_on_close: "pump_status (on_close ws url s) = pump_status s"
  by (simp add: on_close_def Let_def split: option.splits)

lemma pump_status_update:
  "pump_status (snd (updatePumpStatus env a p st md s)) b =
     (if upsert_ok env \<and> b = a
      then Some (case pump_status s a of
                   None \<Rightarrow> \<lparr>row_id = next_id s, area_name = a, pump_id = p,
                            status = st, mode = md, last_updated = now env\<rparr>
                 | Some r \<Rightarrow> r\<lparr>status := st, mode := md, last_updated := now env\<rparr>)
      else pump_status s b)"
  by (simp add: updatePumpStatus_def)

text \<open>The upsert sets \<open>pump_id\<close> only when it creates the row.\<close>

lemma pump_id_update:
  "map_option pump_id (pump_status (snd (updatePumpStatus env a p st md s)) b) =
     (if upsert_ok env \<and> b = a \<and> pump_status s a = None then Some p
      else map_option pump_id (pump_status s b))"
  by (auto simp: pump_status_update split: option.splits)

lemma pump_id_handleSoilMoistureUpdate:
  "map_option pump_id (pump_status (handleSoilMoistureUpdate env a r s) b) =
     map_option pump_id (pump_status s b) \<or>
   (b = a \<and> pump_status s a = None \<and>
    map_option pump_id (pump_status (handleSoilMoistureUpdate env a r s) b) = Some (''pump_'' @ a))"
  by (auto simp: handleSoilMoistureUpdate_def Let_def pump_status_broadcast updatePumpStatus_def
      split: option.splits)

lemma pump_id_app_post:
  "map_option pump_id (pump_status (snd (app_post env a body s)) b) =
     map_option pump_id (pump_status s b) \<or>
   (b = a \<and> pump_status s a = None \<and>
    map_option pump_id (pump_status (snd (app_post env a body s)) b) = Some (''pump_'' @ a))"
  by (auto simp: app_post_def updatePumpStatus_def pump_status_broadcast
      split: option.splits prod.splits bool.splits)

text \<open>
  One event either leaves the pump id of area \<open>b\<close> as it was, or creates the row of
  \<open>b\<close>; the pump id of a created row is the derived one unless the event is a
  \<open>pump_control\<close> message that names another.
\<close>

lemma pump_id_step:
  "map_option pump_id (pump_status (step env e s) b) = map_option pump_id (pump_status s b) \<or>
   (pump_status s b = None \<and>
    (\<exists>p. map_option pump_id (pump_status (step env e s) b) = Some p \<and>
         (derived_command e \<longrightarrow> p = ''pump_'' @ b)))"
proof (cases e)
  case (Connection ws url)
  then show ?thesis by (simp add: step_def pump_status_on_connection)
next
  case (WsMessage ws data)
  show ?thesis
  proof (cases data)
    case (PumpControl a p st md)
    with WsMessage show ?thesis
      by (simp add: step_def on_message_def pump_status_broadcast pump_id_update)
  next
    case (SoilMoistureUpdate a r)
    with WsMessage pump_id_handleSoilMoistureUpdate [of env a r s b] show ?thesis
      by (auto simp: step_def on_message_def)
  next
    case (RequestOptimalMoisture a)
    with WsMessage show ?thesis
      by (simp add: step_def on_message_def pump_status_sendOptimalMoisture)
  next
    case Unrecognised
    with WsMessage show ?thesis by (simp add: step_def on_message_def)
  qed
next
  case (WsClose ws url)
  then show ?thesis by (simp add: step_def pump_status_on_close)
next
  case (HttpPost a body)
  with pump_id_app_post [of env a body s b] show ?thesis
    by (auto simp: step_def)
qed

lemma step_keeps_pump_id:
  assumes "pump_status s b = Some r"
  shows "map_option pump_id (pump_status (step env e s) b) = Some (pump_id r)"
  using pump_id_step [of env e s b] assms by auto

lemma run_keeps_pump_id:
  "pump_status s b = Some r \<Longrightarrow>
   map_option pump_id (pump_status (run es s) b) = Some (pump_id r)"
proof (induction es arbitrary: s r)
  case Nil
  then show ?case by simp
next
  case (Cons x es)
  obtain env e where x: "x = (env, e)" by (cases x)
  from step_keeps_pump_id [OF Cons.prems, of env e]
  obtain r' where r': "pump_status (step env e s) b = Some r'" "pump_id r' = pump_id r"
    by auto
  from Cons.IH [OF r'(1)] r'(2) x show ?case by simp
qed

lemma step_derived:
  assumes "derived_command e" and "pump_id_derived s b"
  shows "pump_id_derived (step env e s) b"
  using pump_id_step [of env e s b] assms
  by (auto simp: pump_id_derived_def split: option.splits)

lemma run_derived:
  "\<forall>x \<in> set es. derived_command (snd x) \<Longrightarrow> pump_id_derived s b \<Longrightarrow>
   pump_id_derived (run es s) b"
proof (induction es arbitrary: s)
  case Nil
  then show ?case by simp
next
  case (Cons x es)
  obtain env e where x: "x = (env, e)" by (cases x)
  with Cons.prems have "derived_command e" by simp
  from step_derived [OF this Cons.prems(2)] have "pump_id_derived (step env e s) b" .
  with Cons.IH Cons.prems(1) x show ?case by simp
qed

text \<open>
  An upsert followed by a broadcast, twice with the same arguments: what both operator
  paths do when the upsert succeeds.
\<close>

lemma command_twice_rows:
  assumes "upsert_ok env1"
  shows "map_option untimed_row
           (pump_status (broadcastPumpStatus env2 a (snd (updatePumpStatus env2 a p st md
              (broadcastPumpStatus env1 a (snd (updatePumpStatus env1 a p st md s)))))) b) =
         map_option untimed_row
           (pump_status (broadcastPumpStatus env1 a (snd (updatePumpStatus env1 a p st md s))) b)"
  using assms
  by (simp add: pump_status_broadcast pump_status_update untimed_row_def split: option.splits)

lemma command_twice_sent:
  assumes "upsert_ok env1" and "upsert_ok env2"
    and "broadcast_query_ok env1" and "broadcast_query_ok env2"
  shows "map untimed_msg
           (sent_since (broadcastPumpStatus env1 a (snd (updatePumpStatus env1 a p st md s)))
              (broadcastPumpStatus env2 a (snd (updatePumpStatus env2 a p st md
                 (broadcastPumpStatus env1 a (snd (updatePumpStatus env1 a p st md s))))))) =
         map untimed_msg
           (sent_since s (broadcastPumpStatus env1 a (snd (updatePumpStatus env1 a p st md s))))"
  using assms
  by (auto simp: sent_since_def broadcastPumpStatus_def updatePumpStatus_def ws_send_def
        view_of_row_def split: option.splits)

text \<open>
  The POST path looks at the result of \<open>updatePumpStatus\<close>: when the upsert throws,
  nothing is written, nothing is sent, and the response is not a 200.
\<close>

lemma app_post_failed_upsert:
  assumes "\<not> upsert_ok env"
  shows "snd (app_post env a body s) = s \<and> fst (fst (app_post env a body s)) \<in> {400, 500}"
  using assms
  by (auto simp: app_post_def updatePumpStatus_def split: option.splits)





section \<open>The claims\<close>

subsection \<open>Sensor readings\<close>

text \<open>
  C1.  An area in auto mode (its row has mode \<open>auto\<close>, or it has no row yet and the
  handler creates one in auto mode) has crop settings with optimal moisture \<open>m\<close>.  After
  \<open>handleSoilMoistureUpdate\<close> has processed the reading \<open>r\<close>, the status of the
  area's row is true if and only if \<open>r < m + 10\<close>.  The reading is processed when the
  handler's queries succeed; a query that throws ends the handler in its \<open>catch\<close>.
\<close>

theorem soil_reading_sets_status:
  assumes "crop_settings s a = Some c"
    and "pump_status s a = None \<or> map_option mode (pump_status s a) = Some ''auto''"
    and "crop_query_ok env" and "status_query_ok env" and "insert_ok env" and "upsert_ok env"
  shows "map_option status (pump_status (handleSoilMoistureUpdate env a r s) a)
           = Some (r < optimal_moisture c + 10)"
  using assms
  by (auto simp: handleSoilMoistureUpdate_def updatePumpStatus_def broadcastPumpStatus_def
        ws_send_def Let_def split: option.splits)

theorem soil_reading_sets_status_witness:
  "crop_settings (field1_state True ''auto'') ''field1''
     = Some \<lparr>crop_name = ''wheat'', optimal_moisture = 40\<rparr> \<and>
   map_option mode (pump_status (field1_state True ''auto'') ''field1'') = Some ''auto'' \<and>
   map_option status
     (pump_status (handleSoilMoistureUpdate (all_ok 1) ''field1'' 55 (field1_state True ''auto''))
        ''field1'') = Some False"
  using soil_reading_sets_status [of "field1_state True ''auto''" "''field1''"
      "\<lparr>crop_name = ''wheat'', optimal_moisture = 40\<rparr>" "all_ok 1" 55]
  by (simp add: field1_state_def field1_row_def all_ok_def)

text \<open>
  C2.  When the row of an area has mode \<open>manual\<close>, a soil-moisture reading for the
  area changes nothing: neither the status nor the mode of the row, nor anything else of
  the store, the registry or the messages sent.
\<close>

theorem manual_area_untouched:
  assumes "pump_status s a = Some row" and "mode row = ''manual''"
  shows "handleSoilMoistureUpdate env a r s = s"
  using assms
  by (auto simp: handleSoilMoistureUpdate_def Let_def split: option.splits)

theorem manual_area_untouched_witness:
  "pump_status (field1_state True ''manual'') ''field1'' = Some (field1_row True ''manual'') \<and>
   mode (field1_row True ''manual'') = ''manual'' \<and>
   handleSoilMoistureUpdate (all_ok 2) ''field1'' 48 (field1_state True ''manual'')
     = field1_state True ''manual''"
  using manual_area_untouched [of "field1_state True ''manual''" "''field1''"
      "field1_row True ''manual''" "all_ok 2" 48]
  by (simp add: field1_state_def field1_row_def)

text \<open>
  C3.  The row of an area has mode \<open>auto\<close> and the area has crop settings.  When the
  status computed from a reading, \<open>r < m + 10\<close>, equals the status of the row, the
  handler writes nothing and sends nothing: the state after it is the state before it.
  So a write or a broadcast happens only when the computed status differs from the
  persisted one.  (The handler returns no value; skipping is this absence of any effect.)
\<close>

theorem unchanged_reading_no_write_no_broadcast:
  assumes "pump_status s a = Some row" and "mode row = ''auto''"
    and "crop_settings s a = Some c"
    and "(r < optimal_moisture c + 10) = status row"
  shows "handleSoilMoistureUpdate env a r s = s"
  using assms
  by (auto simp: handleSoilMoistureUpdate_def Let_def split: option.splits)

theorem unchanged_reading_no_write_no_broadcast_witness:
  "pump_status (field1_state False ''auto'') ''field1'' = Some (field1_row False ''auto'') \<and>
   mode (field1_row False ''auto'') = ''auto'' \<and>
   (55 < optimal_moisture \<lparr>crop_name = ''wheat'', optimal_moisture = 40\<rparr> + 10)
     = status (field1_row False ''auto'') \<and>
   handleSoilMoistureUpdate (all_ok 1) ''field1'' 55 (field1_state False ''auto'')
     = field1_state False ''auto''"
  using unchanged_reading_no_write_no_broadcast [of "field1_state False ''auto''" "''field1''"
      "field1_row False ''auto''" "\<lparr>crop_name = ''wheat'', optimal_moisture = 40\<rparr>" 55 "all_ok 1"]
  by (simp add: field1_state_def field1_row_def)

subsection \<open>Operator commands\<close>

text \<open>
  C4.  The claim: when the persistence step of an operator command fails, the service
  reports the failure and broadcasts nothing for the area, on the streaming path as on
  the POST path.  The POST path does so (\<open>app_post_failed_upsert\<close>).  The
  \<open>pump_control\<close> branch of the message handler does not look at the result of
  \<open>updatePumpStatus\<close>: here area \<open>field1\<close> is off in auto mode with socket 7
  registered, the upsert of a command "on, manual" throws, and the handler still
  broadcasts, sending the unchanged row to socket 7 and nothing that tells of the failure.
\<close>

theorem pump_control_broadcasts_after_failed_upsert:
  "on_message (upsert_down 5) 7 (PumpControl ''field1'' ''pump_field1'' True ''manual'')
     (field1_state False ''auto'')
   = (field1_state False ''auto'')
       \<lparr>outbox := [(7, PumpStatusUpdate (view_of_row (field1_row False ''auto'')))]\<rparr>"
  by (simp add: on_message_def updatePumpStatus_def broadcastPumpStatus_def ws_send_def
        upsert_down_def all_ok_def field1_state_def)

text \<open>
  C8.  A POST whose body lacks the status field or the mode field (an empty body lacks
  both) is answered with 400, and the state of the server and of its store is unchanged.
\<close>

theorem post_missing_field_400:
  assumes "b_status body = None \<or> b_mode body = None"
  shows "app_post env a body s = ((400, ErrorBody ''Missing required fields''), s)"
  using assms
  by (auto simp: app_post_def split: option.splits)

theorem post_missing_field_400_witness:
  "app_post (all_ok 1) ''field1'' \<lparr>b_status = None, b_mode = None\<rparr> (field1_state False ''auto'')
     = ((400, ErrorBody ''Missing required fields''), field1_state False ''auto'')"
  using post_missing_field_400 [of "\<lparr>b_status = None, b_mode = None\<rparr>" "all_ok 1" "''field1''"
      "field1_state False ''auto''"]
  by simp

text \<open>
  C9, as amended.  The same operator command (a \<open>pump_control\<close> message or a POST) is
  applied twice in succession, and the upsert and the broadcast's query succeed both
  times.  Then every row after the second application equals the row after the first in
  every field but \<open>last_updated\<close>, and the messages sent by the second application
  equal those sent by the first in everything but \<open>last_updated\<close>.
\<close>

theorem operator_command_twice_untimed:
  assumes "operator_command e"
    and "upsert_ok env1" and "upsert_ok env2"
    and "broadcast_query_ok env1" and "broadcast_query_ok env2"
  shows "map_option untimed_row (pump_status (step env2 e (step env1 e s)) b) =
           map_option untimed_row (pump_status (step env1 e s) b) \<and>
         map untimed_msg (sent_since (step env1 e s) (step env2 e (step env1 e s))) =
           map untimed_msg (sent_since s (step env1 e s))"
proof (cases e)
  case (Connection ws url)
  with assms(1) show ?thesis by simp
next
  case (WsMessage ws data)
  with assms(1) obtain a p st md where "data = PumpControl a p st md"
    by (cases data) simp_all
  with WsMessage command_twice_rows [OF assms(2), of env2 a p st md s b]
    command_twice_sent [OF assms(2-5), of a p st md s]
  show ?thesis by (simp add: step_def on_message_def)
next
  case (WsClose ws url)
  with assms(1) show ?thesis by simp
next
  case (HttpPost a body)
  show ?thesis
  proof (cases "\<exists>st md. b_status body = Some st \<and> b_mode body = Some md \<and> md \<noteq> []")
    case True
    then obtain st md where "b_status body = Some st" "b_mode body = Some md" "md \<noteq> []"
      by blast
    with HttpPost assms(2,3) command_twice_rows [OF assms(2), of env2 a "''pump_'' @ a" st md s b]
      command_twice_sent [OF assms(2-5), of a "''pump_'' @ a" st md s]
    show ?thesis
      by (simp add: step_def app_post_def updatePumpStatus_def)
  next
    case False
    then have "app_post env a body t = ((400, ErrorBody ''Missing required fields''), t)" for env t
      by (auto simp: app_post_def split: option.splits)
    with HttpPost show ?thesis by (simp add: step_def sent_since_def)
  qed
qed

theorem operator_command_twice_untimed_witness:
  "map_option untimed_row
     (pump_status
        (step (all_ok 2) (HttpPost ''field1'' \<lparr>b_status = Some True, b_mode = Some ''manual''\<rparr>)
           (step (all_ok 1) (HttpPost ''field1'' \<lparr>b_status = Some True, b_mode = Some ''manual''\<rparr>)
              (field1_state False ''auto''))) ''field1'')
   = Some (field1_row True ''manual'') \<and>
   map untimed_msg
     (sent_since
        (step (all_ok 1) (HttpPost ''field1'' \<lparr>b_status = Some True, b_mode = Some ''manual''\<rparr>)
           (field1_state False ''auto''))
        (step (all_ok 2) (HttpPost ''field1'' \<lparr>b_status = Some True, b_mode = Some ''manual''\<rparr>)
           (step (all_ok 1) (HttpPost ''field1'' \<lparr>b_status = Some True, b_mode = Some ''manual''\<rparr>)
              (field1_state False ''auto''))))
   = [(7, PumpStatusUpdate (view_of_row (field1_row True ''manual'')))]"
  using operator_command_twice_untimed
      [of "HttpPost ''field1'' \<lparr>b_status = Some True, b_mode = Some ''manual''\<rparr>"
        "all_ok 1" "all_ok 2" "field1_state False ''auto''" "''field1''"]
  by (simp add: step_def app_post_def updatePumpStatus_def broadcastPumpStatus_def ws_send_def
        sent_since_def view_of_row_def untimed_row_def all_ok_def field1_state_def field1_row_def)

text \<open>
  C9 as stated fails: every upsert sets \<open>last_updated\<close> to the time of the write.  The
  command "on, manual" is posted for \<open>field1\<close> at time 1 and again at time 2; the row
  after the second application differs from the row after the first, and so does the
  message sent.
\<close>

theorem operator_command_twice_changes_time:
  "pump_status
     (step (all_ok 2) (HttpPost ''field1'' \<lparr>b_status = Some True, b_mode = Some ''manual''\<rparr>)
        (step (all_ok 1) (HttpPost ''field1'' \<lparr>b_status = Some True, b_mode = Some ''manual''\<rparr>)
           (field1_state False ''auto''))) ''field1''
   \<noteq> pump_status
        (step (all_ok 1) (HttpPost ''field1'' \<lparr>b_status = Some True, b_mode = Some ''manual''\<rparr>)
           (field1_state False ''auto'')) ''field1'' \<and>
   sent_since
     (step (all_ok 1) (HttpPost ''field1'' \<lparr>b_status = Some True, b_mode = Some ''manual''\<rparr>)
        (field1_state False ''auto''))
     (step (all_ok 2) (HttpPost ''field1'' \<lparr>b_status = Some True, b_mode = Some ''manual''\<rparr>)
        (step (all_ok 1) (HttpPost ''field1'' \<lparr>b_status = Some True, b_mode = Some ''manual''\<rparr>)
           (field1_state False ''auto'')))
   \<noteq> sent_since (field1_state False ''auto'')
        (step (all_ok 1) (HttpPost ''field1'' \<lparr>b_status = Some True, b_mode = Some ''manual''\<rparr>)
           (field1_state False ''auto''))"
  by (simp add: step_def app_post_def updatePumpStatus_def broadcastPumpStatus_def ws_send_def
        sent_since_def view_of_row_def all_ok_def field1_state_def field1_row_def)

subsection \<open>The registry of sessions\<close>

text \<open>
  C5, as amended.  When a session that connected with a non-empty area name closes, the
  registry entry of that area is deleted, whichever session is registered there at that
  moment.
\<close>

theorem close_deletes_area_entry:
  assumes "areaName_of_url url = Some a" and "a \<noteq> []"
  shows "clients (on_close ws url s) = (clients s)(a := None)"
  using assms by (simp add: on_close_def Let_def)

theorem close_deletes_area_entry_witness:
  "areaName_of_url ''/?area=field1'' = Some ''field1'' \<and>
   clients (on_close 7 ''/?area=field1'' (field1_state False ''auto'')) ''field1'' = None"
  using close_deletes_area_entry [of "''/?area=field1''" "''field1''" 7
      "field1_state False ''auto''"]
  by (simp add: areaName_of_url_def)

text \<open>
  C5 as stated fails: the \<open>close\<close> handler does not compare sessions.  Socket 1
  connects for \<open>field1\<close>, socket 2 connects for \<open>field1\<close> and takes its place in the
  registry, then socket 1 closes: the entry that held socket 2 is gone.
\<close>

theorem stale_close_evicts_newer_session:
  "clients (on_connection (all_ok 2) 2 ''/?area=field1''
              (on_connection (all_ok 1) 1 ''/?area=field1'' (initial Map.empty))) ''field1''
     = Some 2 \<and>
   clients (on_close 1 ''/?area=field1''
              (on_connection (all_ok 2) 2 ''/?area=field1''
                 (on_connection (all_ok 1) 1 ''/?area=field1'' (initial Map.empty)))) ''field1''
     = None"
  by (simp add: on_close_def on_connection_def sendPumpStatus_def ws_send_def
        areaName_of_url_def initial_def all_ok_def Let_def)

subsection \<open>Status queries on the streaming path\<close>

text \<open>
  C6.  For an area without a row, \<open>sendPumpStatus\<close> (its query succeeding) sends
  the socket one \<open>pump_status_update\<close> with status false, mode \<open>auto\<close> and pump id
  \<open>pump_\<close> followed by the area name, and changes nothing else: no row is created
  or modified.
\<close>

theorem status_query_synthesizes_default:
  assumes "pump_status s a = None" and "status_query_ok env"
  shows "sendPumpStatus env (Some a) ws s =
           s\<lparr>outbox := outbox s @
               [(ws, PumpStatusUpdate
                       \<lparr>v_id = None, v_area_name = Some a, v_pump_id = ''pump_'' @ a,
                        v_status = False, v_mode = ''auto'', v_last_updated = now env\<rparr>)]\<rparr>"
  using assms
  by (simp add: sendPumpStatus_def ws_send_def template_def)

theorem status_query_synthesizes_default_witness:
  "pump_status (field1_state False ''auto'') ''field9'' = None \<and>
   outbox (sendPumpStatus (all_ok 3) (Some ''field9'') 8 (field1_state False ''auto''))
     = [(8, PumpStatusUpdate
              \<lparr>v_id = None, v_area_name = Some ''field9'', v_pump_id = ''pump_field9'',
               v_status = False, v_mode = ''auto'', v_last_updated = 3\<rparr>)] \<and>
   pump_status (sendPumpStatus (all_ok 3) (Some ''field9'') 8 (field1_state False ''auto''))
     = pump_status (field1_state False ''auto'')"
  using status_query_synthesizes_default [of "field1_state False ''auto''" "''field9''"
      "all_ok 3" 8]
  by (simp add: field1_state_def all_ok_def)




subsection \<open>The pump id of a row\<close>

text \<open>
  C7, as amended.  Over any run of events: if the row of area \<open>a\<close> (when present)
  carries the pump id \<open>pump_\<close> followed by \<open>a\<close> at the start, and every
  \<open>pump_control\<close> message of the run names the pump id derived from its own area, then
  the row of \<open>a\<close> carries the derived pump id at the end; and whatever the messages
  name, the pump id of a row that exists is never changed by a sensor reading, a
  \<open>pump_control\<close> message or a POST.
\<close>

theorem pump_id_derived_and_kept:
  "(pump_id_derived s a \<longrightarrow> (\<forall>x \<in> set es. derived_command (snd x)) \<longrightarrow>
      pump_id_derived (run es s) a) \<and>
   (pump_status s a = Some r \<longrightarrow>
      map_option pump_id (pump_status (run es s) a) = Some (pump_id r))"
  using run_derived [of es s a] run_keeps_pump_id [of s a r es] by blast

theorem pump_id_derived_and_kept_witness:
  "pump_id_derived (initial Map.empty) ''field1'' \<and>
   pump_id_derived
     (run [(all_ok 1, HttpPost ''field1'' \<lparr>b_status = Some True, b_mode = Some ''manual''\<rparr>),
           (all_ok 2, WsMessage 7 (PumpControl ''field1'' ''pump_field1'' False ''auto''))]
        (initial Map.empty)) ''field1'' \<and>
   pump_status (field1_state True ''manual'') ''field1'' = Some (field1_row True ''manual'') \<and>
   map_option pump_id
     (pump_status
        (run [(all_ok 3, WsMessage 7 (PumpControl ''field1'' ''p1'' False ''auto''))]
           (field1_state True ''manual'')) ''field1'') = Some ''pump_field1''"
  using pump_id_derived_and_kept [of "initial Map.empty" "''field1''"
      "[(all_ok 1, HttpPost ''field1'' \<lparr>b_status = Some True, b_mode = Some ''manual''\<rparr>),
        (all_ok 2, WsMessage 7 (PumpControl ''field1'' ''pump_field1'' False ''auto''))]"
      "field1_row True ''manual''"]
    pump_id_derived_and_kept [of "field1_state True ''manual''" "''field1''"
      "[(all_ok 3, WsMessage 7 (PumpControl ''field1'' ''p1'' False ''auto''))]"
      "field1_row True ''manual''"]
  by (simp add: pump_id_derived_def initial_def field1_state_def field1_row_def)

text \<open>
  C7 as stated fails: a \<open>pump_control\<close> message passes its own \<open>pump_id\<close> field to
  the upsert.  On an empty table, the message for \<open>field1\<close> naming pump \<open>p1\<close> creates
  the row of \<open>field1\<close> with pump id \<open>p1\<close>.
\<close>

theorem pump_control_creates_foreign_pump_id:
  "\<not> pump_id_derived
        (run [(all_ok 1, WsMessage 7 (PumpControl ''field1'' ''p1'' True ''manual''))]
           (initial Map.empty)) ''field1''"
  by (simp add: pump_id_derived_def step_def on_message_def broadcastPumpStatus_def
        updatePumpStatus_def all_ok_def initial_def)

end
